theory Spec2Isabelle
  imports Complex_Main
begin

section \<open>The renderer element and its scene graph\<close>

text \<open>
  The components (\<^verbatim>\<open>AdvancedModelViewerDemo\<close>, three near copies) keep UI state next to
  one \<^verbatim>\<open>model-viewer\<close> element and mutate the materials of the element's scene graph.
  The element is typed \<^verbatim>\<open>HTMLElement & { availableVariants?, variantName?, model?: any }\<close>;
  the embedding keeps exactly the fields the handlers touch. It follows the component with
  the material inspector and the model selector; the others have the same handlers, one
  without the selector and one without selector and inspector.

  A JavaScript number is a double. The handlers never compute with one: they copy colour
  channels and evaluate \<^verbatim>\<open>alpha < 1\<close>. Finite doubles are modelled by the reals they denote,
  the three special values by constructors of their own.
\<close>

datatype number = Finite real | PosInfinity | NegInfinity | NaN

text \<open>The comparison \<^verbatim>\<open>alpha < 1\<close>: false on \<^verbatim>\<open>NaN\<close> and on \<^verbatim>\<open>Infinity\<close>.\<close>

fun lt_one :: "number \<Rightarrow> bool" where
  "lt_one (Finite x) = (x < 1)"
| "lt_one NegInfinity = True"
| "lt_one PosInfinity = False"
| "lt_one NaN = False"

type_synonym rgba = "number \<times> number \<times> number \<times> number"

text \<open>The literal \<^verbatim>\<open>[1,1,1,1]\<close>.\<close>

definition white :: rgba where
  "white = (Finite 1, Finite 1, Finite 1, Finite 1)"

datatype alpha_mode = OPAQUE | MASK | BLEND

text \<open>
  The handle \<^verbatim>\<open>m.pbrMetallicRoughness\<close>: \<^verbatim>\<open>baseColorFactor\<close> may be undefined
  (\<^verbatim>\<open>?? [1,1,1,1]\<close> in the load handler), \<^verbatim>\<open>setBaseColorFactor\<close> overwrites it.
\<close>

record pbr =
  baseColorFactor :: "rgba option"

text \<open>
  Reading \<^verbatim>\<open>m.pbrMetallicRoughness\<close> is a call into the renderer. It yields a handle,
  yields nothing (the guards \<^verbatim>\<open>?.\<close> and \<^verbatim>\<open>if (!pmr) return\<close>), or raises: the handlers
  wrap each loop in \<^verbatim>\<open>try\<close>/\<^verbatim>\<open>catch\<close> for that case.
\<close>

datatype pbr_access = Raises | NoHandle | Handle pbr

text \<open>
  A material object. \<^verbatim>\<open>name\<close> is \<^verbatim>\<open>None\<close> when the entry or its name is null or
  undefined (\<^verbatim>\<open>m?.name\<close>, \<^verbatim>\<open>typeof mm?.name === 'string'\<close>); a name that is present is a
  string, as the renderer declares it. \<^verbatim>\<open>alphaMode\<close> is what \<^verbatim>\<open>setAlphaMode\<close> writes.
\<close>

record material =
  name :: "string option"
  pbrMetallicRoughness :: pbr_access
  alphaMode :: alpha_mode

text \<open>
  The element. \<^verbatim>\<open>availableVariants\<close> is \<^verbatim>\<open>None\<close> when it is not an array
  (\<^verbatim>\<open>Array.isArray\<close>); \<^verbatim>\<open>variantName\<close> is \<^verbatim>\<open>string | null\<close>; \<^verbatim>\<open>model_materials\<close> is
  the value of \<^verbatim>\<open>el.model?.materials\<close>, \<^verbatim>\<open>None\<close> when the model or its list is undefined.
\<close>

record mv_element =
  availableVariants :: "string list option"
  variantName :: "string option"
  model_materials :: "material list option"

section \<open>Component state\<close>

datatype error = RendererError

datatype warning = UnableToCacheMaterials error | FailedToToggleGroup string error

text \<open>
  The \<^verbatim>\<open>useState\<close> cells and the two refs, in the order of the source;
  \<^verbatim>\<open>console\<close> collects the \<^verbatim>\<open>console.warn\<close> calls. An object used as a dictionary
  (\<^verbatim>\<open>Record<string, boolean>\<close>) and the \<^verbatim>\<open>Map\<close> of original colours are maps.
\<close>

record state =
  mvRef :: "mv_element option"
  currentModel :: string
  variants :: "string list"
  variant :: string
  groups :: "string \<rightharpoonup> string list"
  groupVisibility :: "string \<rightharpoonup> bool"
  materials :: "string list"
  materialVisibility :: "string \<rightharpoonup> bool"
  originalColor :: "string \<rightharpoonup> rgba"
  console :: "warning list"

section \<open>Strings\<close>

text \<open>
  \<^verbatim>\<open>toLowerCase\<close> on the ASCII letters (\<^verbatim>\<open>A\<close> to \<^verbatim>\<open>Z\<close>, codes 65 to 90, get bit 5
  set); the material names and patterns of the configuration are ASCII.
\<close>

definition lower_char :: "char \<Rightarrow> char" where
  "lower_char c =
     (case c of
        Char b0 b1 b2 b3 b4 b5 b6 b7 \<Rightarrow>
          if 65 \<le> (of_char c :: nat) \<and> (of_char c :: nat) \<le> 90
          then Char b0 b1 b2 b3 b4 True b6 b7 else c)"

definition toLowerCase :: "string \<Rightarrow> string" where
  "toLowerCase s = map lower_char s"

text \<open>\<^verbatim>\<open>s.includes(p)\<close>: \<^verbatim>\<open>p\<close> occurs in \<^verbatim>\<open>s\<close> as a contiguous substring.\<close>

fun includes_str :: "string \<Rightarrow> string \<Rightarrow> bool" where
  "includes_str [] p = (p = [])"
| "includes_str (c # cs) p = (take (length p) (c # cs) = p \<or> includes_str cs p)"

section \<open>Handlers\<close>

text \<open>\<^verbatim>\<open>el?.model?.materials ?? []\<close>\<close>

definition scene_materials :: "mv_element option \<Rightarrow> material list" where
  "scene_materials el =
     (case el of
        None \<Rightarrow> []
      | Some e \<Rightarrow> (case model_materials e of None \<Rightarrow> [] | Some ms \<Rightarrow> ms))"

text \<open>The material objects are shared with the renderer: a mutation is a write into its list.\<close>

definition write_materials :: "material list \<Rightarrow> state \<Rightarrow> state" where
  "write_materials ms s =
     s\<lparr>mvRef := map_option (\<lambda>e. e\<lparr>model_materials := Some ms\<rparr>) (mvRef s)\<rparr>"

text \<open>
  The predicate of \<^verbatim>\<open>mats.find\<close> in \<^verbatim>\<open>setMaterialAlpha\<close>:
  \<^verbatim>\<open>typeof mm?.name === 'string' && mm.name.toLowerCase() === matName.toLowerCase()\<close>.
\<close>

definition name_is :: "string \<Rightarrow> material \<Rightarrow> bool" where
  "name_is matName mm =
     (case name mm of None \<Rightarrow> False | Some nm \<Rightarrow> toLowerCase nm = toLowerCase matName)"

text \<open>\<^verbatim>\<open>Array.prototype.find\<close>, returning the position of the first hit.\<close>

fun find_index :: "('a \<Rightarrow> bool) \<Rightarrow> 'a list \<Rightarrow> nat option" where
  "find_index P [] = None"
| "find_index P (x # xs) =
     (if P x then Some 0 else map_option Suc (find_index P xs))"

text \<open>
  \<^verbatim>\<open>setMaterialAlpha(matName, alpha)\<close>. The two early returns leave the state as it is;
  the accessor may raise before anything is written.
\<close>

definition setMaterialAlpha :: "string \<Rightarrow> number \<Rightarrow> state \<Rightarrow> error + state" where
  "setMaterialAlpha matName alpha s =
     (let mats = scene_materials (mvRef s) in
      case find_index (name_is matName) mats of
        None \<Rightarrow> Inr s
      | Some i \<Rightarrow>
          (let m = mats ! i in
           case pbrMetallicRoughness m of
             Raises \<Rightarrow> Inl RendererError
           | NoHandle \<Rightarrow> Inr s
           | Handle pmr \<Rightarrow>
               (let orig = (case name m of
                              None \<Rightarrow> white
                            | Some nm \<Rightarrow>
                                (case originalColor s nm of None \<Rightarrow> white | Some c \<Rightarrow> c));
                    (r, g, b, a0) = orig;
                    m' = m\<lparr>pbrMetallicRoughness :=
                              Handle (pmr\<lparr>baseColorFactor := Some (r, g, b, alpha)\<rparr>),
                            alphaMode := (if lt_one alpha then BLEND else OPAQUE)\<rparr>
                in Inr (write_materials (mats[i := m']) s))))"

text \<open>
  The test of the group loop:
  \<^verbatim>\<open>name = m?.name ?? ''\<close>, \<^verbatim>\<open>patterns.some((p) => name.toLowerCase().includes(p.toLowerCase()))\<close>.
\<close>

definition name_or_empty :: "material \<Rightarrow> string" where
  "name_or_empty m = (case name m of None \<Rightarrow> [] | Some nm \<Rightarrow> nm)"

definition matches :: "string list \<Rightarrow> material \<Rightarrow> bool" where
  "matches patterns m =
     (\<exists>p \<in> set patterns. includes_str (toLowerCase (name_or_empty m)) (toLowerCase p))"

text \<open>
  The body of the \<^verbatim>\<open>try\<close> in \<^verbatim>\<open>updateGroupVisibility\<close>: the \<^verbatim>\<open>for\<close> loop over the
  materials. The loop reads only the names, which no call changes, so it runs over the
  list as it was at its start while the state is threaded through the setter calls. A
  failure leaves the loop at once; what was written before it stays, so the loop returns
  the state it reached together with the failure.
\<close>

fun toggle_loop ::
  "string list \<Rightarrow> number \<Rightarrow> bool \<Rightarrow> material list \<Rightarrow> state \<Rightarrow> state \<times> error option" where
  "toggle_loop patterns alpha visible [] s = (s, None)"
| "toggle_loop patterns alpha visible (m # ms) s =
     (if matches patterns m then
        (case setMaterialAlpha (name_or_empty m) alpha s of
           Inl e \<Rightarrow> (s, Some e)
         | Inr s' \<Rightarrow>
             toggle_loop patterns alpha visible ms
               (s'\<lparr>materialVisibility := (materialVisibility s')(name_or_empty m \<mapsto> visible)\<rparr>))
      else toggle_loop patterns alpha visible ms s)"

text \<open>\<^verbatim>\<open>const patterns = groups[groupKey] || []\<close>\<close>

definition group_patterns :: "state \<Rightarrow> string \<Rightarrow> string list" where
  "group_patterns s groupKey = (case groups s groupKey of None \<Rightarrow> [] | Some ps \<Rightarrow> ps)"

text \<open>\<^verbatim>\<open>visible ? 1.0 : 0.0\<close>\<close>

definition alpha_for :: "bool \<Rightarrow> number" where
  "alpha_for visible = (if visible then Finite 1 else Finite 0)"

text \<open>
  \<^verbatim>\<open>updateGroupVisibility(groupKey, visible)\<close>. The group flag is written first; then
  \<^verbatim>\<open>if (!el || !patterns.length) return\<close>; then the guarded loop, whose failure is caught
  and logged.
\<close>

definition updateGroupVisibility :: "string \<Rightarrow> bool \<Rightarrow> state \<Rightarrow> state" where
  "updateGroupVisibility groupKey visible s =
     (let s1 = s\<lparr>groupVisibility := (groupVisibility s)(groupKey \<mapsto> visible)\<rparr>;
          patterns = group_patterns s groupKey
      in if mvRef s1 = None \<or> patterns = [] then s1
         else
           (case toggle_loop patterns (alpha_for visible) visible (scene_materials (mvRef s1)) s1 of
              (s2, None) \<Rightarrow> s2
            | (s2, Some e) \<Rightarrow> s2\<lparr>console := console s2 @ [FailedToToggleGroup groupKey e]\<rparr>))"


text \<open>\<^verbatim>\<open>m.pbrMetallicRoughness?.baseColorFactor ?? [1,1,1,1]\<close>\<close>

definition base_color :: "material \<Rightarrow> error + rgba" where
  "base_color m =
     (case pbrMetallicRoughness m of
        Raises \<Rightarrow> Inl RendererError
      | NoHandle \<Rightarrow> Inr white
      | Handle pmr \<Rightarrow> (case baseColorFactor pmr of None \<Rightarrow> Inr white | Some c \<Rightarrow> Inr c))"

text \<open>
  The body of the \<^verbatim>\<open>try\<close> in the load handler. \<^verbatim>\<open>names\<close> and \<^verbatim>\<open>vis\<close> are locals,
  lost on a failure; \<^verbatim>\<open>originalColor\<close> is a ref, so what was cached before a failure
  stays. \<^verbatim>\<open>if (!m?.name) continue\<close> skips a missing and an empty name.
\<close>

fun collect ::
  "material list \<Rightarrow> string list \<Rightarrow> (string \<rightharpoonup> bool) \<Rightarrow> (string \<rightharpoonup> rgba)
     \<Rightarrow> (string \<rightharpoonup> rgba) \<times> (error + string list \<times> (string \<rightharpoonup> bool))" where
  "collect [] names vis cache = (cache, Inr (names, vis))"
| "collect (m # ms) names vis cache =
     (case name m of
        None \<Rightarrow> collect ms names vis cache
      | Some nm \<Rightarrow>
          if nm = [] then collect ms names vis cache
          else if cache nm \<noteq> None then collect ms (names @ [nm]) (vis(nm \<mapsto> True)) cache
          else
            (case base_color m of
               Inl e \<Rightarrow> (cache, Inl e)
             | Inr c \<Rightarrow> collect ms (names @ [nm]) (vis(nm \<mapsto> True)) (cache(nm \<mapsto> c))))"

text \<open>
  The first part of the listener \<^verbatim>\<open>onLoad\<close>, outside the \<^verbatim>\<open>try\<close>: the variants.
  \<^verbatim>\<open>Array.isArray(el.availableVariants) ? el.availableVariants : []\<close>, then, for a
  non-empty list, \<^verbatim>\<open>prev || list[0]\<close> and \<^verbatim>\<open>el.variantName || list[0]\<close>.
\<close>

definition load_variants :: "mv_element \<Rightarrow> state \<Rightarrow> state" where
  "load_variants el s =
     (let list = (case availableVariants el of None \<Rightarrow> [] | Some l \<Rightarrow> l);
          s1 = s\<lparr>variants := list\<rparr>
      in case list of
           [] \<Rightarrow> s1
         | v0 # _ \<Rightarrow>
             s1\<lparr>variant := (if variant s1 \<noteq> [] then variant s1 else v0),
                mvRef := Some (el\<lparr>variantName :=
                  (case variantName el of
                     None \<Rightarrow> Some v0
                   | Some v \<Rightarrow> if v \<noteq> [] then Some v else Some v0)\<rparr>)\<rparr>)"

text \<open>
  The listener \<^verbatim>\<open>onLoad\<close>. It is bound only when the element exists
  (\<^verbatim>\<open>if (!el) return\<close> in the effect). After the variants comes the guarded loop; on
  success \<^verbatim>\<open>setMaterials(names)\<close> and \<^verbatim>\<open>setMaterialVisibility(vis)\<close>, on a failure the
  warning. The order of \<^verbatim>\<open>names.sort((a,b)=>a.localeCompare(b))\<close> is the runtime's; it is
  the parameter \<^verbatim>\<open>localeSort\<close>.
\<close>

definition onLoad :: "(string list \<Rightarrow> string list) \<Rightarrow> state \<Rightarrow> state" where
  "onLoad localeSort s =
     (case mvRef s of
        None \<Rightarrow> s
      | Some el \<Rightarrow>
          (let s2 = load_variants el s in
           case collect (scene_materials (mvRef s2)) [] Map.empty (originalColor s2) of
             (cache, Inl e) \<Rightarrow>
               s2\<lparr>originalColor := cache,
                  console := console s2 @ [UnableToCacheMaterials e]\<rparr>
           | (cache, Inr (names, vis)) \<Rightarrow>
               s2\<lparr>materials := localeSort names,
                  materialVisibility := vis,
                  originalColor := cache\<rparr>))"

text \<open>The effect on \<^verbatim>\<open>[variant]\<close>: \<^verbatim>\<open>if (el && variant) el.variantName = variant\<close>.\<close>

definition variantEffect :: "state \<Rightarrow> state" where
  "variantEffect s =
     (case mvRef s of
        None \<Rightarrow> s
      | Some el \<Rightarrow>
          if variant s \<noteq> [] then s\<lparr>mvRef := Some (el\<lparr>variantName := Some (variant s)\<rparr>)\<rparr>
          else s)"

text \<open>The initial value of \<^verbatim>\<open>groupVisibility\<close>, written again by the reset.\<close>

definition allGroupsVisible :: "string \<rightharpoonup> bool" where
  "allGroupsVisible =
     [''Body'' \<mapsto> True, ''Details'' \<mapsto> True, ''Eyes'' \<mapsto> True, ''Beak'' \<mapsto> True,
      ''Comb'' \<mapsto> True]"

definition DEFAULT_GROUPS :: "string \<rightharpoonup> string list" where
  "DEFAULT_GROUPS =
     [''Body'' \<mapsto> [''body'', ''skin'', ''feather'', ''coat'', ''paint''],
      ''Details'' \<mapsto> [''detail'', ''metal'', ''chrome'', ''trim''],
      ''Eyes'' \<mapsto> [''eye'', ''pupil'', ''iris''],
      ''Beak'' \<mapsto> [''beak'', ''mouth''],
      ''Comb'' \<mapsto> [''comb'', ''crest'']]"



section \<open>Derived notions\<close>

text \<open>
  The material as the two writes of \<^verbatim>\<open>setMaterialAlpha\<close> leave it:
  \<^verbatim>\<open>pmr.setBaseColorFactor([r, g, b, alpha])\<close> with the channels cached under the material's
  name (white when nothing is cached), then \<^verbatim>\<open>m.setAlphaMode\<close>.
\<close>

definition recolor :: "(string \<rightharpoonup> rgba) \<Rightarrow> number \<Rightarrow> pbr \<Rightarrow> material \<Rightarrow> material" where
  "recolor cache a p m =
     m\<lparr>pbrMetallicRoughness :=
         Handle (p\<lparr>baseColorFactor :=
           Some (case (case name m of
                         None \<Rightarrow> white
                       | Some nm \<Rightarrow> (case cache nm of None \<Rightarrow> white | Some c \<Rightarrow> c)) of
                   (r, g, b, a0) \<Rightarrow> (r, g, b, a))\<rparr>),
       alphaMode := (if lt_one a then BLEND else OPAQUE)\<rparr>"

text \<open>The material after a setter call that located it: only a handle is written to.\<close>

definition set_alpha :: "(string \<rightharpoonup> rgba) \<Rightarrow> number \<Rightarrow> material \<Rightarrow> material" where
  "set_alpha cache a m =
     (case pbrMetallicRoughness m of Handle p \<Rightarrow> recolor cache a p m | _ \<Rightarrow> m)"

text \<open>
  The accessor of the material that the setter locates for a name raises; this is when
  \<^verbatim>\<open>setMaterialAlpha\<close> raises.
\<close>

definition raising :: "string \<Rightarrow> state \<Rightarrow> bool" where
  "raising n s =
     (case find (name_is n) (scene_materials (mvRef s)) of
        None \<Rightarrow> False
      | Some m \<Rightarrow> pbrMetallicRoughness m = Raises)"

text \<open>The state after one setter call, whether it returned or raised.\<close>

definition setter_result :: "string \<Rightarrow> number \<Rightarrow> state \<Rightarrow> state" where
  "setter_result nm alpha s = (case setMaterialAlpha nm alpha s of Inl e \<Rightarrow> s | Inr s' \<Rightarrow> s')"

text \<open>
  The reading of the group toggle in the specification: for each name of a list in turn,
  invoke the alpha setter and write the visibility flag.
\<close>

fun apply_setter_to :: "number \<Rightarrow> bool \<Rightarrow> string list \<Rightarrow> state \<Rightarrow> state" where
  "apply_setter_to alpha visible [] s = s"
| "apply_setter_to alpha visible (nm # nms) s =
     apply_setter_to alpha visible nms
       ((setter_result nm alpha s)
          \<lparr>materialVisibility := (materialVisibility (setter_result nm alpha s))(nm \<mapsto> visible)\<rparr>)"

text \<open>What no setter call changes in a material: its name, and whether its accessor raises.\<close>

definition shape :: "material \<Rightarrow> string option \<times> bool" where
  "shape m = (name m, pbrMetallicRoughness m = Raises)"




section \<open>Sample scenes\<close>

text \<open>
  The component as mounted: the initial values of the \<^verbatim>\<open>useState\<close> cells and refs.
  \<^verbatim>\<open>base\<close> is \<^verbatim>\<open>import.meta.env.BASE_URL\<close>.
\<close>

definition initialState :: "string \<Rightarrow> mv_element option \<Rightarrow> state" where
  "initialState base el =
     \<lparr>mvRef = el,
      currentModel = base @ ''models/test1.glb'',
      variants = [],
      variant = [],
      groups = DEFAULT_GROUPS,
      groupVisibility = allGroupsVisible,
      materials = [],
      materialVisibility = Map.empty,
      originalColor = Map.empty,
      console = []\<rparr>"

text \<open>Materials of a loaded asset, used to run the handlers on concrete input.\<close>

definition bodyPaint :: material where
  "bodyPaint =
     \<lparr>name = Some ''Body_Paint'',
      pbrMetallicRoughness =
        Handle \<lparr>baseColorFactor = Some (Finite (4/5), Finite (1/5), Finite (1/10), Finite 1)\<rparr>,
      alphaMode = OPAQUE\<rparr>"

definition eyeLens :: material where
  "eyeLens =
     \<lparr>name = Some ''Eye_Lens'',
      pbrMetallicRoughness =
        Handle \<lparr>baseColorFactor = Some (Finite 0, Finite 0, Finite 0, Finite (1/2))\<rparr>,
      alphaMode = BLEND\<rparr>"

text \<open>A material without a \<^verbatim>\<open>pbrMetallicRoughness\<close> handle.\<close>

definition glass :: material where
  "glass = \<lparr>name = Some ''Glass'', pbrMetallicRoughness = NoHandle, alphaMode = MASK\<rparr>"

text \<open>A material with an empty name.\<close>

definition unnamed :: material where
  "unnamed =
     \<lparr>name = Some [],
      pbrMetallicRoughness = Handle \<lparr>baseColorFactor = None\<rparr>,
      alphaMode = OPAQUE\<rparr>"

text \<open>A material whose \<^verbatim>\<open>pbrMetallicRoughness\<close> accessor raises.\<close>

definition skinUnloaded :: material where
  "skinUnloaded = \<lparr>name = Some ''Skin'', pbrMetallicRoughness = Raises, alphaMode = OPAQUE\<rparr>"

definition element :: "material list \<Rightarrow> mv_element" where
  "element ms = \<lparr>availableVariants = Some [], variantName = None, model_materials = Some ms\<rparr>"

definition scene :: "material list \<Rightarrow> state" where
  "scene ms = initialState ''/'' (Some (element ms))"





lemmas sample_defs =
  scene_def element_def initialState_def bodyPaint_def eyeLens_def glass_def unnamed_def
  skinUnloaded_def scene_materials_def name_is_def toLowerCase_def lower_char_def

lemmas group_defs = group_patterns_def DEFAULT_GROUPS_def matches_def name_or_empty_def

section \<open>Locating a material\<close>


lemma find_index_Some:
  "find_index P xs = Some i \<Longrightarrow> i < length xs \<and> P (xs ! i) \<and> (\<forall>j < i. \<not> P (xs ! j))"
proof (induction xs arbitrary: i)
  case Nil
  then show ?case by simp
next
  case (Cons x xs)
  show ?case
  proof (cases "P x")
    case True
    with Cons.prems show ?thesis by simp
  next
    case False
    with Cons.prems obtain k where k: "find_index P xs = Some k" "i = Suc k"
      by auto
    from Cons.IH [OF k(1)] False k(2) show ?thesis
      by (auto simp: less_Suc_eq_0_disj)
  qed
qed

text \<open>\<^verbatim>\<open>find\<close> returns the element at the position \<^const>\<open>find_index\<close> gives.\<close>

lemma find_find_index: "find P xs = map_option (\<lambda>i. xs ! i) (find_index P xs)"
  by (induction xs) (auto simp: option.map_comp comp_def)

lemma find_index_cong:
  "map P xs = map Q ys \<Longrightarrow> find_index P xs = find_index Q ys"
proof (induction xs arbitrary: ys)
  case Nil
  then show ?case by simp
next
  case (Cons x xs)
  then obtain y ys' where "ys = y # ys'" by (cases ys) auto
  with Cons show ?case by auto
qed

lemma find_index_update:
  assumes "i < length ms" and "P m' = P (ms ! i)"
  shows "find_index P (ms[i := m']) = find_index P ms"
proof (rule find_index_cong)
  have "map P (ms[i := m']) = (map P ms)[i := P (ms ! i)]"
    using assms by (simp add: map_update)
  also have "\<dots> = map P ms"
    using assms(1) by (simp add: list_update_same_conv)
  finally show "map P (ms[i := m']) = map P ms" .
qed

lemma scene_materials_write:
  "mvRef s \<noteq> None \<Longrightarrow> scene_materials (mvRef (write_materials ms s)) = ms"
  by (auto simp: scene_materials_def write_materials_def)

lemma scene_materials_nonempty:
  "scene_materials (mvRef s) \<noteq> [] \<Longrightarrow> mvRef s \<noteq> None"
  by (auto simp: scene_materials_def split: option.splits)

lemma write_materials_fields:
  "originalColor (write_materials ms s) = originalColor s"
  "materialVisibility (write_materials ms s) = materialVisibility s"
  "groupVisibility (write_materials ms s) = groupVisibility s"
  "groups (write_materials ms s) = groups s"
  "console (write_materials ms s) = console s"
  "materials (write_materials ms s) = materials s"
  "variants (write_materials ms s) = variants s"
  "variant (write_materials ms s) = variant s"
  "currentModel (write_materials ms s) = currentModel s"
  "(mvRef (write_materials ms s) = None) = (mvRef s = None)"
  by (simp_all add: write_materials_def)

section \<open>The alpha setter\<close>




text \<open>
  C9. If the material located by \<^verbatim>\<open>setMaterialAlpha\<close> exists but exposes no
  \<^verbatim>\<open>pbrMetallicRoughness\<close> handle, the call writes nothing (neither the base-colour factor
  nor the blend mode) and returns without an error.
\<close>

theorem setMaterialAlpha_no_handle_noop:
  assumes "find (name_is n) (scene_materials (mvRef s)) = Some m"
    and "pbrMetallicRoughness m = NoHandle"
  shows "setMaterialAlpha n a s = Inr s"
  using assms by (auto simp: setMaterialAlpha_def find_find_index Let_def)

theorem setMaterialAlpha_no_handle_noop_witness:
  "find (name_is ''GLASS'') (scene_materials (mvRef (scene [bodyPaint, glass]))) = Some glass
   \<and> pbrMetallicRoughness glass = NoHandle
   \<and> setMaterialAlpha ''GLASS'' (Finite 0) (scene [bodyPaint, glass]) = Inr (scene [bodyPaint, glass])"
proof -
  have f: "find (name_is ''GLASS'') (scene_materials (mvRef (scene [bodyPaint, glass]))) = Some glass"
    by (simp add: sample_defs)
  have h: "pbrMetallicRoughness glass = NoHandle"
    by (simp add: glass_def)
  from f h setMaterialAlpha_no_handle_noop [OF f h] show ?thesis by simp
qed

lemma setMaterialAlpha_handle:
  assumes i: "find_index (name_is n) (scene_materials (mvRef s)) = Some i"
    and p: "pbrMetallicRoughness (scene_materials (mvRef s) ! i) = Handle p"
  shows "\<exists>s'. setMaterialAlpha n a s = Inr s'
           \<and> scene_materials (mvRef s') =
               (scene_materials (mvRef s))
                 [i := recolor (originalColor s) a p (scene_materials (mvRef s) ! i)]
           \<and> originalColor s' = originalColor s"
proof -
  from find_index_Some [OF i] have "scene_materials (mvRef s) \<noteq> []" by auto
  then have "mvRef s \<noteq> None" by (rule scene_materials_nonempty)
  then show ?thesis
    using i p
    by (simp add: setMaterialAlpha_def Let_def scene_materials_write write_materials_fields
        recolor_def split: prod.splits)
qed

lemma recolor_fields:
  "name (recolor cache a p m) = name m"
  "alphaMode (recolor cache a p m) = (if lt_one a then BLEND else OPAQUE)"
  "name m = Some nm \<Longrightarrow> cache nm = Some (r, g, b, a0) \<Longrightarrow>
     pbrMetallicRoughness (recolor cache a p m) = Handle (p\<lparr>baseColorFactor := Some (r, g, b, a)\<rparr>)"
  by (simp_all add: recolor_def)

text \<open>
  C6, amended. For every material located by \<^verbatim>\<open>setMaterialAlpha(name, alpha)\<close> that exposes a
  \<^verbatim>\<open>pbrMetallicRoughness\<close> handle, the call returns without an error and the material's
  blend mode afterwards is \<^verbatim>\<open>BLEND\<close> exactly when \<^verbatim>\<open>alpha < 1\<close>, and \<^verbatim>\<open>OPAQUE\<close> otherwise.
\<close>

theorem setMaterialAlpha_blend_mode:
  assumes "find_index (name_is n) (scene_materials (mvRef s)) = Some i"
    and "pbrMetallicRoughness (scene_materials (mvRef s) ! i) = Handle p"
  shows "\<exists>s'. setMaterialAlpha n a s = Inr s'
           \<and> alphaMode (scene_materials (mvRef s') ! i) = (if lt_one a then BLEND else OPAQUE)"
proof -
  from find_index_Some [OF assms(1)] have len: "i < length (scene_materials (mvRef s))"
    by simp
  from setMaterialAlpha_handle [OF assms, of a] len show ?thesis
    by (auto simp: recolor_fields)
qed

theorem setMaterialAlpha_blend_mode_witness:
  "find_index (name_is ''BODY_PAINT'') (scene_materials (mvRef (scene [bodyPaint, eyeLens]))) = Some 0
   \<and> (\<exists>s'. setMaterialAlpha ''BODY_PAINT'' (Finite 0) (scene [bodyPaint, eyeLens]) = Inr s'
          \<and> alphaMode (scene_materials (mvRef s') ! 0) = BLEND)"
proof -
  let ?s = "scene [bodyPaint, eyeLens]"
  have i: "find_index (name_is ''BODY_PAINT'') (scene_materials (mvRef ?s)) = Some 0"
    by (simp add: sample_defs)
  have p: "pbrMetallicRoughness (scene_materials (mvRef ?s) ! 0)
             = Handle \<lparr>baseColorFactor = Some (Finite (4/5), Finite (1/5), Finite (1/10), Finite 1)\<rparr>"
    by (simp add: sample_defs)
  from i setMaterialAlpha_blend_mode [OF i p, of "Finite 0"] show ?thesis by simp
qed

text \<open>
  C6 as stated fails on a located material without a handle: the call returns at
  \<^verbatim>\<open>if (!pmr) return\<close>, and the blend mode \<^verbatim>\<open>MASK\<close> stays although \<^verbatim>\<open>0 < 1\<close>.
\<close>

theorem setMaterialAlpha_blend_mode_counterexample:
  "find_index (name_is ''Glass'') (scene_materials (mvRef (scene [bodyPaint, glass]))) = Some 1
   \<and> lt_one (Finite 0)
   \<and> setMaterialAlpha ''Glass'' (Finite 0) (scene [bodyPaint, glass]) = Inr (scene [bodyPaint, glass])
   \<and> alphaMode (scene_materials (mvRef (scene [bodyPaint, glass])) ! 1) = MASK"
  by (simp add: setMaterialAlpha_def sample_defs)

text \<open>
  C2, amended. Let the setter locate a material for the given name (the first whose name
  equals it up to case), let that material expose a \<^verbatim>\<open>pbrMetallicRoughness\<close> handle, and
  let its colour be cached under its name. Then \<^verbatim>\<open>setMaterialAlpha(name, 0.0)\<close> followed by
  \<^verbatim>\<open>setMaterialAlpha(name, 1.0)\<close> both return without an error and leave the material's
  base-colour factor equal to the cached RGB channels with alpha 1.0, and its blend mode
  opaque.
\<close>

theorem setMaterialAlpha_hide_show_roundtrip:
  assumes i: "find_index (name_is n) (scene_materials (mvRef s)) = Some i"
    and p: "pbrMetallicRoughness (scene_materials (mvRef s) ! i) = Handle p"
    and nm: "name (scene_materials (mvRef s) ! i) = Some nm"
    and c: "originalColor s nm = Some (r, g, b, a0)"
  shows "\<exists>s1 s2. setMaterialAlpha n (Finite 0) s = Inr s1
           \<and> setMaterialAlpha n (Finite 1) s1 = Inr s2
           \<and> (\<exists>p2. pbrMetallicRoughness (scene_materials (mvRef s2) ! i) = Handle p2
                  \<and> baseColorFactor p2 = Some (r, g, b, Finite 1))
           \<and> alphaMode (scene_materials (mvRef s2) ! i) = OPAQUE"
proof -
  let ?ms = "scene_materials (mvRef s)"
  let ?m1 = "recolor (originalColor s) (Finite 0) p (?ms ! i)"
  from find_index_Some [OF i] have len: "i < length ?ms" by simp
  from setMaterialAlpha_handle [OF i p, of "Finite 0"] obtain s1 where
    s1: "setMaterialAlpha n (Finite 0) s = Inr s1"
      "scene_materials (mvRef s1) = ?ms[i := ?m1]"
      "originalColor s1 = originalColor s"
    by blast
  have i1: "find_index (name_is n) (scene_materials (mvRef s1)) = Some i"
    using i len by (simp add: s1(2) find_index_update name_is_def recolor_fields)
  have at1: "scene_materials (mvRef s1) ! i = ?m1"
    using len by (simp add: s1(2))
  have p1: "pbrMetallicRoughness (scene_materials (mvRef s1) ! i)
              = Handle (p\<lparr>baseColorFactor := Some (r, g, b, Finite 0)\<rparr>)"
    using nm c by (simp add: at1 recolor_fields)
  from setMaterialAlpha_handle [OF i1 p1, of "Finite 1"] obtain s2 where
    s2: "setMaterialAlpha n (Finite 1) s1 = Inr s2"
      "scene_materials (mvRef s2) = (scene_materials (mvRef s1))
         [i := recolor (originalColor s1) (Finite 1)
                 (p\<lparr>baseColorFactor := Some (r, g, b, Finite 0)\<rparr>) (scene_materials (mvRef s1) ! i)]"
    by blast
  have at2: "scene_materials (mvRef s2) ! i
               = recolor (originalColor s) (Finite 1)
                   (p\<lparr>baseColorFactor := Some (r, g, b, Finite 0)\<rparr>) ?m1"
    using len by (simp add: s2(2) s1(2) s1(3))
  have "pbrMetallicRoughness (scene_materials (mvRef s2) ! i)
          = Handle (p\<lparr>baseColorFactor := Some (r, g, b, Finite 1)\<rparr>)"
    using nm c by (simp add: at2 recolor_fields)
  moreover have "alphaMode (scene_materials (mvRef s2) ! i) = OPAQUE"
    by (simp add: at2 recolor_fields)
  ultimately show ?thesis using s1(1) s2(1) by simp
qed


theorem setMaterialAlpha_hide_show_roundtrip_witness:
  "originalColor (onLoad id (scene [bodyPaint, eyeLens])) ''Eye_Lens''
     = Some (Finite 0, Finite 0, Finite 0, Finite (1/2))
   \<and> (\<exists>s1 s2. setMaterialAlpha ''EYE_LENS'' (Finite 0) (onLoad id (scene [bodyPaint, eyeLens])) = Inr s1
         \<and> setMaterialAlpha ''EYE_LENS'' (Finite 1) s1 = Inr s2
         \<and> (\<exists>p2. pbrMetallicRoughness (scene_materials (mvRef s2) ! 1) = Handle p2
                \<and> baseColorFactor p2 = Some (Finite 0, Finite 0, Finite 0, Finite 1))
         \<and> alphaMode (scene_materials (mvRef s2) ! 1) = OPAQUE)"
proof -
  let ?s = "onLoad id (scene [bodyPaint, eyeLens])"
  have i: "find_index (name_is ''EYE_LENS'') (scene_materials (mvRef ?s)) = Some 1"
    by (simp add: onLoad_def load_variants_def sample_defs base_color_def)
  have p: "pbrMetallicRoughness (scene_materials (mvRef ?s) ! 1)
             = Handle \<lparr>baseColorFactor = Some (Finite 0, Finite 0, Finite 0, Finite (1/2))\<rparr>"
    by (simp add: onLoad_def load_variants_def sample_defs base_color_def)
  have nm: "name (scene_materials (mvRef ?s) ! 1) = Some ''Eye_Lens''"
    by (simp add: onLoad_def load_variants_def sample_defs base_color_def)
  have c: "originalColor ?s ''Eye_Lens'' = Some (Finite 0, Finite 0, Finite 0, Finite (1/2))"
    by (simp add: onLoad_def load_variants_def sample_defs base_color_def)
  from c setMaterialAlpha_hide_show_roundtrip [OF i p nm c] show ?thesis by simp
qed

text \<open>
  C2 as stated fails on a material that is present and cached at load but has no handle:
  the load handler caches white for it, both calls return at \<^verbatim>\<open>if (!pmr) return\<close>, and
  the material keeps its blend mode \<^verbatim>\<open>MASK\<close> and has no base-colour factor.
\<close>

theorem setMaterialAlpha_hide_show_roundtrip_counterexample:
  "materialVisibility (onLoad id (scene [bodyPaint, glass])) ''Glass'' = Some True
   \<and> originalColor (onLoad id (scene [bodyPaint, glass])) ''Glass'' = Some white
   \<and> setMaterialAlpha ''Glass'' (Finite 0) (onLoad id (scene [bodyPaint, glass]))
       = Inr (onLoad id (scene [bodyPaint, glass]))
   \<and> setMaterialAlpha ''Glass'' (Finite 1) (onLoad id (scene [bodyPaint, glass]))
       = Inr (onLoad id (scene [bodyPaint, glass]))
   \<and> scene_materials (mvRef (onLoad id (scene [bodyPaint, glass]))) ! 1 = glass
   \<and> pbrMetallicRoughness glass = NoHandle
   \<and> alphaMode glass = MASK"
  by (simp add: setMaterialAlpha_def onLoad_def load_variants_def sample_defs base_color_def)


section \<open>The group toggle\<close>

lemma setMaterialAlpha_raises: "(\<exists>e. setMaterialAlpha n a s = Inl e) \<longleftrightarrow> raising n s"
  by (auto simp: setMaterialAlpha_def raising_def find_find_index Let_def
      split: option.splits pbr_access.splits prod.splits)

lemma setMaterialAlpha_Inl: "setMaterialAlpha n a s = Inl e \<Longrightarrow> raising n s"
  using setMaterialAlpha_raises by blast

lemma write_materials_only_mvRef:
  "write_materials ms s = s\<lparr>mvRef := mvRef (write_materials ms s)\<rparr>"
  by (simp add: write_materials_def)

text \<open>What a call that returns leaves behind.\<close>

lemma setMaterialAlpha_Inr:
  assumes "setMaterialAlpha n a s = Inr s'"
  shows "s' = s\<lparr>mvRef := mvRef s'\<rparr>
         \<and> (mvRef s' = None) = (mvRef s = None)
         \<and> scene_materials (mvRef s') =
             (case find_index (name_is n) (scene_materials (mvRef s)) of
                None \<Rightarrow> scene_materials (mvRef s)
              | Some i \<Rightarrow> (scene_materials (mvRef s))
                  [i := set_alpha (originalColor s) a (scene_materials (mvRef s) ! i)])"
proof (cases "find_index (name_is n) (scene_materials (mvRef s))")
  case None
  with assms show ?thesis by (simp add: setMaterialAlpha_def)
next
  case (Some i)
  from find_index_Some [OF Some] have "scene_materials (mvRef s) \<noteq> []" by auto
  then have ne: "mvRef s \<noteq> None" by (rule scene_materials_nonempty)
  show ?thesis
  proof (cases "pbrMetallicRoughness (scene_materials (mvRef s) ! i)")
    case Raises
    with Some assms show ?thesis by (simp add: setMaterialAlpha_def Let_def)
  next
    case NoHandle
    with Some assms show ?thesis
      by (auto simp: setMaterialAlpha_def Let_def set_alpha_def)
  next
    case (Handle p)
    with Some assms have s': "s' = write_materials
        ((scene_materials (mvRef s))[i := recolor (originalColor s) a p (scene_materials (mvRef s) ! i)]) s"
      by (auto simp: setMaterialAlpha_def Let_def recolor_def split: prod.splits)
    show ?thesis
      using ne Some Handle write_materials_only_mvRef
      by (simp add: s' scene_materials_write write_materials_fields set_alpha_def)
  qed
qed

lemma set_alpha_fields:
  "name (set_alpha cache a m) = name m"
  "(pbrMetallicRoughness (set_alpha cache a m) = Raises) = (pbrMetallicRoughness m = Raises)"
  by (simp_all add: set_alpha_def recolor_def split: pbr_access.splits)


lemma shape_set_alpha: "shape (set_alpha cache a m) = shape m"
  by (simp add: shape_def set_alpha_fields)

lemma setMaterialAlpha_shape:
  assumes "setMaterialAlpha n a s = Inr s'"
  shows "map shape (scene_materials (mvRef s')) = map shape (scene_materials (mvRef s))"
proof (cases "find_index (name_is n) (scene_materials (mvRef s))")
  case None
  with setMaterialAlpha_Inr [OF assms] show ?thesis by simp
next
  case (Some i)
  from find_index_Some [OF Some] have "i < length (scene_materials (mvRef s))" by simp
  with setMaterialAlpha_Inr [OF assms] Some show ?thesis
    by (simp add: map_update shape_set_alpha list_update_same_conv)
qed

lemma name_is_shape: "name_is n m = (case fst (shape m) of None \<Rightarrow> False
    | Some nm \<Rightarrow> toLowerCase nm = toLowerCase n)"
  by (simp add: name_is_def shape_def)

lemma find_index_shape:
  assumes "map shape ms' = map shape ms"
  shows "find_index (name_is n) ms' = find_index (name_is n) ms"
proof (rule find_index_cong)
  have "map (name_is n) ms' = map (\<lambda>x. case fst x of None \<Rightarrow> False
      | Some nm \<Rightarrow> toLowerCase nm = toLowerCase n) (map shape ms')"
    by (simp add: name_is_shape comp_def)
  also have "\<dots> = map (name_is n) ms"
    by (simp add: assms name_is_shape comp_def)
  finally show "map (name_is n) ms' = map (name_is n) ms" .
qed

lemma raising_shape:
  assumes "map shape (scene_materials (mvRef s')) = map shape (scene_materials (mvRef s))"
  shows "raising n s' = raising n s"
proof -
  have fi: "find_index (name_is n) (scene_materials (mvRef s'))
              = find_index (name_is n) (scene_materials (mvRef s))"
    by (rule find_index_shape [OF assms])
  show ?thesis
  proof (cases "find_index (name_is n) (scene_materials (mvRef s))")
    case None
    with fi show ?thesis by (simp add: raising_def find_find_index)
  next
    case (Some i)
    from find_index_Some [OF Some] have len: "i < length (scene_materials (mvRef s))" by simp
    from assms have "length (scene_materials (mvRef s')) = length (scene_materials (mvRef s))"
      by (rule map_eq_imp_length_eq)
    with len assms have "shape (scene_materials (mvRef s') ! i) = shape (scene_materials (mvRef s) ! i)"
      by (metis nth_map)
    with Some fi show ?thesis
      by (simp add: raising_def find_find_index shape_def)
  qed
qed


lemma only_mvRef_fields:
  assumes "s' = s\<lparr>mvRef := r\<rparr>"
  shows "groupVisibility s' = groupVisibility s" "materialVisibility s' = materialVisibility s"
    "originalColor s' = originalColor s" "console s' = console s" "groups s' = groups s"
    "materials s' = materials s" "variants s' = variants s" "variant s' = variant s"
    "currentModel s' = currentModel s"
  using assms by simp_all

text \<open>One setter call, whether it returns or raises.\<close>

lemma setter_result_props:
  "setter_result n a s = s\<lparr>mvRef := mvRef (setter_result n a s)\<rparr>"
  "(mvRef (setter_result n a s) = None) = (mvRef s = None)"
  "scene_materials (mvRef (setter_result n a s)) =
     (case find_index (name_is n) (scene_materials (mvRef s)) of
        None \<Rightarrow> scene_materials (mvRef s)
      | Some i \<Rightarrow> (scene_materials (mvRef s))
          [i := set_alpha (originalColor s) a (scene_materials (mvRef s) ! i)])"
proof -
  show "setter_result n a s = s\<lparr>mvRef := mvRef (setter_result n a s)\<rparr>"
    using setMaterialAlpha_Inr [of n a s]
    by (cases "setMaterialAlpha n a s") (simp_all add: setter_result_def)
  show "(mvRef (setter_result n a s) = None) = (mvRef s = None)"
    using setMaterialAlpha_Inr [of n a s]
    by (cases "setMaterialAlpha n a s") (simp_all add: setter_result_def)
  show "scene_materials (mvRef (setter_result n a s)) =
     (case find_index (name_is n) (scene_materials (mvRef s)) of
        None \<Rightarrow> scene_materials (mvRef s)
      | Some i \<Rightarrow> (scene_materials (mvRef s))
          [i := set_alpha (originalColor s) a (scene_materials (mvRef s) ! i)])"
  proof (cases "setMaterialAlpha n a s")
    case (Inr s')
    with setMaterialAlpha_Inr [OF Inr] show ?thesis by (simp add: setter_result_def)
  next
    case (Inl e)
    then have "raising n s" by (rule setMaterialAlpha_Inl)
    then obtain i where i: "find_index (name_is n) (scene_materials (mvRef s)) = Some i"
      and r: "pbrMetallicRoughness (scene_materials (mvRef s) ! i) = Raises"
      by (auto simp: raising_def find_find_index split: option.splits)
    from r have "set_alpha (originalColor s) a (scene_materials (mvRef s) ! i)
                   = scene_materials (mvRef s) ! i"
      by (simp add: set_alpha_def)
    with Inl i show ?thesis by (simp add: setter_result_def)
  qed
qed

lemma setter_result_fields:
  "groupVisibility (setter_result n a s) = groupVisibility s"
  "materialVisibility (setter_result n a s) = materialVisibility s"
  "originalColor (setter_result n a s) = originalColor s"
  "console (setter_result n a s) = console s"
  "groups (setter_result n a s) = groups s"
  "materials (setter_result n a s) = materials s"
  "variants (setter_result n a s) = variants s"
  "variant (setter_result n a s) = variant s"
  "currentModel (setter_result n a s) = currentModel s"
  by (rule only_mvRef_fields [OF setter_result_props(1)])+

lemma setter_result_shape:
  "map shape (scene_materials (mvRef (setter_result n a s))) = map shape (scene_materials (mvRef s))"
proof (cases "find_index (name_is n) (scene_materials (mvRef s))")
  case None
  then show ?thesis by (simp add: setter_result_props(3))
next
  case (Some i)
  from find_index_Some [OF Some] have "i < length (scene_materials (mvRef s))" by simp
  with Some show ?thesis
    by (simp add: setter_result_props(3) map_update shape_set_alpha list_update_same_conv)
qed





text \<open>The loop runs through a prefix whose matches do not raise.\<close>

lemma toggle_loop_append:
  assumes "\<forall>m \<in> set pre. matches ps m \<longrightarrow> \<not> raising (name_or_empty m) s"
  shows "toggle_loop ps a v (pre @ rest) s
     = toggle_loop ps a v rest
         (apply_setter_to a v (map name_or_empty (filter (matches ps) pre)) s)"
  using assms
proof (induction pre arbitrary: s)
  case Nil
  then show ?case by simp
next
  case (Cons m pre)
  show ?case
  proof (cases "matches ps m")
    case False
    with Cons show ?thesis by simp
  next
    case True
    with Cons.prems have "\<not> raising (name_or_empty m) s" by simp
    then obtain s' where s': "setMaterialAlpha (name_or_empty m) a s = Inr s'"
      using setMaterialAlpha_raises [of "name_or_empty m" a s]
      by (cases "setMaterialAlpha (name_or_empty m) a s") auto
    then have sr: "setter_result (name_or_empty m) a s = s'"
      by (simp add: setter_result_def)
    let ?s1 = "s'\<lparr>materialVisibility := (materialVisibility s')(name_or_empty m \<mapsto> v)\<rparr>"
    have "map shape (scene_materials (mvRef ?s1)) = map shape (scene_materials (mvRef s))"
      using setter_result_shape [of "name_or_empty m" a s] by (simp add: sr)
    then have "\<And>n. raising n ?s1 = raising n s"
      by (rule raising_shape)
    with Cons.prems have "\<forall>x \<in> set pre. matches ps x \<longrightarrow> \<not> raising (name_or_empty x) ?s1"
      by simp
    from Cons.IH [OF this] True s' sr show ?thesis by simp
  qed
qed



lemma updateGroupVisibility_unfold:
  "updateGroupVisibility g v s =
     (let s1 = s\<lparr>groupVisibility := (groupVisibility s)(g \<mapsto> v)\<rparr> in
      if mvRef s = None \<or> group_patterns s g = [] then s1
      else (case toggle_loop (group_patterns s g) (alpha_for v) v (scene_materials (mvRef s)) s1 of
              (s2, None) \<Rightarrow> s2
            | (s2, Some e) \<Rightarrow> s2\<lparr>console := console s2 @ [FailedToToggleGroup g e]\<rparr>))"
  by (simp add: updateGroupVisibility_def Let_def)

lemma matches_Nil: "\<not> matches [] m"
  by (simp add: matches_def)

lemma updateGroupVisibility_no_raise:
  assumes "\<forall>m \<in> set (scene_materials (mvRef s)).
             matches (group_patterns s g) m \<longrightarrow> \<not> raising (name_or_empty m) s"
  shows "updateGroupVisibility g v s =
     apply_setter_to (alpha_for v) v
       (map name_or_empty (filter (matches (group_patterns s g)) (scene_materials (mvRef s))))
       (s\<lparr>groupVisibility := (groupVisibility s)(g \<mapsto> v)\<rparr>)"
proof -
  let ?s1 = "s\<lparr>groupVisibility := (groupVisibility s)(g \<mapsto> v)\<rparr>"
  let ?ps = "group_patterns s g"
  let ?ms = "scene_materials (mvRef s)"
  consider (noel) "mvRef s = None" | (nopat) "?ps = []" | (run) "mvRef s \<noteq> None" "?ps \<noteq> []"
    by blast
  then show ?thesis
  proof cases
    case noel
    then have "?ms = []" by (simp add: scene_materials_def)
    with noel show ?thesis by (simp add: updateGroupVisibility_unfold)
  next
    case nopat
    then show ?thesis by (simp add: updateGroupVisibility_unfold matches_Nil)
  next
    case run
    have "\<forall>m \<in> set ?ms. matches ?ps m \<longrightarrow> \<not> raising (name_or_empty m) ?s1"
      using assms by (simp add: raising_def)
    from toggle_loop_append [OF this, of "alpha_for v" v "[]"]
    have "toggle_loop ?ps (alpha_for v) v ?ms ?s1
            = (apply_setter_to (alpha_for v) v (map name_or_empty (filter (matches ?ps) ?ms)) ?s1, None)"
      by simp
    with run show ?thesis by (auto simp: updateGroupVisibility_unfold Let_def)
  qed
qed














lemma toggle_loop_groupVisibility:
  "groupVisibility (fst (toggle_loop ps a v ms s)) = groupVisibility s"
proof (induction ms arbitrary: s)
  case Nil
  then show ?case by simp
next
  case (Cons m ms)
  show ?case
  proof (cases "matches ps m")
    case False
    with Cons show ?thesis by simp
  next
    case True
    show ?thesis
    proof (cases "setMaterialAlpha (name_or_empty m) a s")
      case (Inl e)
      with True show ?thesis by simp
    next
      case (Inr s')
      then have "setter_result (name_or_empty m) a s = s'" by (simp add: setter_result_def)
      then have "groupVisibility s' = groupVisibility s"
        using setter_result_fields(1) [of "name_or_empty m" a s] by simp
      with True Inr Cons.IH [of "s'\<lparr>materialVisibility := (materialVisibility s')(name_or_empty m \<mapsto> v)\<rparr>"]
      show ?thesis by simp
    qed
  qed
qed

lemma updateGroupVisibility_groupVisibility:
  "groupVisibility (updateGroupVisibility g v s) = (groupVisibility s)(g \<mapsto> v)"
proof -
  let ?s1 = "s\<lparr>groupVisibility := (groupVisibility s)(g \<mapsto> v)\<rparr>"
  have "groupVisibility (fst (toggle_loop (group_patterns s g) (alpha_for v) v
          (scene_materials (mvRef s)) ?s1)) = groupVisibility ?s1"
    by (rule toggle_loop_groupVisibility)
  then show ?thesis
    by (auto simp: updateGroupVisibility_unfold Let_def split: prod.splits option.splits)
qed

text \<open>
  C10. \<^verbatim>\<open>updateGroupVisibility\<close> sets the group's own flag to \<^verbatim>\<open>visible\<close> in every case;
  when the element is absent, the group has no patterns, or no material matches, that is
  all it does, so the group flag changes while no material is written to.
\<close>

theorem updateGroupVisibility_group_flag:
  "groupVisibility (updateGroupVisibility g v s) = (groupVisibility s)(g \<mapsto> v)
   \<and> ((mvRef s = None \<or> group_patterns s g = []
        \<or> (\<forall>m \<in> set (scene_materials (mvRef s)). \<not> matches (group_patterns s g) m))
       \<longrightarrow> updateGroupVisibility g v s = s\<lparr>groupVisibility := (groupVisibility s)(g \<mapsto> v)\<rparr>)"
proof
  show "groupVisibility (updateGroupVisibility g v s) = (groupVisibility s)(g \<mapsto> v)"
    by (rule updateGroupVisibility_groupVisibility)
next
  show "(mvRef s = None \<or> group_patterns s g = []
        \<or> (\<forall>m \<in> set (scene_materials (mvRef s)). \<not> matches (group_patterns s g) m))
       \<longrightarrow> updateGroupVisibility g v s = s\<lparr>groupVisibility := (groupVisibility s)(g \<mapsto> v)\<rparr>"
  proof
    assume "mvRef s = None \<or> group_patterns s g = []
        \<or> (\<forall>m \<in> set (scene_materials (mvRef s)). \<not> matches (group_patterns s g) m)"
    then have none: "\<forall>m \<in> set (scene_materials (mvRef s)). \<not> matches (group_patterns s g) m"
      by (auto simp: scene_materials_def matches_Nil)
    then have "filter (matches (group_patterns s g)) (scene_materials (mvRef s)) = []"
      by (simp add: filter_empty_conv)
    moreover from none have "\<forall>m \<in> set (scene_materials (mvRef s)).
        matches (group_patterns s g) m \<longrightarrow> \<not> raising (name_or_empty m) s"
      by simp
    ultimately show "updateGroupVisibility g v s = s\<lparr>groupVisibility := (groupVisibility s)(g \<mapsto> v)\<rparr>"
      using updateGroupVisibility_no_raise [of s g v] by simp
  qed
qed

theorem updateGroupVisibility_group_flag_witness:
  "groupVisibility (updateGroupVisibility ''Body'' False (scene [eyeLens])) ''Body'' = Some False
   \<and> updateGroupVisibility ''Body'' False (scene [eyeLens])
       = (scene [eyeLens])\<lparr>groupVisibility := (groupVisibility (scene [eyeLens]))(''Body'' \<mapsto> False)\<rparr>
   \<and> groupVisibility (updateGroupVisibility ''Body'' False (initialState ''/'' None)) ''Body'' = Some False
   \<and> mvRef (updateGroupVisibility ''Body'' False (initialState ''/'' None)) = None
   \<and> groupVisibility (updateGroupVisibility ''Wheels'' True (scene [bodyPaint])) ''Wheels'' = Some True
   \<and> mvRef (updateGroupVisibility ''Wheels'' True (scene [bodyPaint])) = mvRef (scene [bodyPaint])"
proof -
  have h: "\<forall>m \<in> set (scene_materials (mvRef (scene [eyeLens]))).
             \<not> matches (group_patterns (scene [eyeLens]) ''Body'') m"
    by (simp add: sample_defs group_defs)
  have n: "mvRef (initialState ''/'' None) = None"
    by (simp add: initialState_def)
  have e: "group_patterns (scene [bodyPaint]) ''Wheels'' = []"
    by (simp add: scene_def initialState_def group_patterns_def DEFAULT_GROUPS_def)
  from h n e updateGroupVisibility_group_flag [of "''Body''" False "scene [eyeLens]"]
    updateGroupVisibility_group_flag [of "''Body''" False "initialState ''/'' None"]
    updateGroupVisibility_group_flag [of "''Wheels''" True "scene [bodyPaint]"]
  show ?thesis by simp
qed

section \<open>The load handler, the model selector and failures\<close>


lemma base_color_raises:
  "pbrMetallicRoughness m = Raises \<Longrightarrow> base_color m = Inl RendererError"
  by (simp add: base_color_def)





lemma collect_raise:
  assumes "name m = Some nm" and "nm \<noteq> []" and "cache nm = None"
    and "pbrMetallicRoughness m = Raises"
  shows "collect (m # post) names vis cache = (cache, Inl RendererError)"
  using assms by (simp add: base_color_raises)




lemma load_variants_materials:
  "mvRef s = Some el \<Longrightarrow> scene_materials (mvRef (load_variants el s)) = scene_materials (Some el)"
  by (simp add: load_variants_def Let_def scene_materials_def split: list.splits)

lemma load_variants_fields:
  "originalColor (load_variants el s) = originalColor s"
  "console (load_variants el s) = console s"
  "materials (load_variants el s) = materials s"
  "materialVisibility (load_variants el s) = materialVisibility s"
  "groupVisibility (load_variants el s) = groupVisibility s"
  by (simp_all add: load_variants_def Let_def scene_materials_def split: list.splits)



lemma onLoad_Some:
  assumes "mvRef s = Some el"
  shows "onLoad f s =
     (case collect (scene_materials (Some el)) [] Map.empty (originalColor s) of
        (cache, Inl e) \<Rightarrow>
          (load_variants el s)\<lparr>originalColor := cache,
             console := console s @ [UnableToCacheMaterials e]\<rparr>
      | (cache, Inr (names, vis)) \<Rightarrow>
          (load_variants el s)\<lparr>materials := f names, materialVisibility := vis,
             originalColor := cache\<rparr>)"
  using assms
  by (simp add: onLoad_def Let_def load_variants_materials load_variants_fields)












text \<open>
  C7. If the loaded asset exposes an empty variant list (or none), the load handler leaves
  the active variant as it was and does not write to the element; with the active variant
  at its empty default, the effect on \<^verbatim>\<open>[variant]\<close> writes no variant name either.
\<close>

theorem onLoad_no_variants:
  assumes "mvRef s = Some el"
    and "availableVariants el = Some [] \<or> availableVariants el = None"
  shows "variants (onLoad f s) = []
     \<and> variant (onLoad f s) = variant s
     \<and> mvRef (onLoad f s) = Some el
     \<and> (variant s = [] \<longrightarrow> variantEffect (onLoad f s) = onLoad f s)"
proof -
  from assms have lv: "load_variants el s = s\<lparr>variants := []\<rparr>"
    by (auto simp: load_variants_def)
  have "variants (onLoad f s) = [] \<and> variant (onLoad f s) = variant s \<and> mvRef (onLoad f s) = Some el"
    using assms(1)
    by (auto simp: onLoad_Some [OF assms(1)] lv split: prod.splits sum.splits)
  then show ?thesis by (simp add: variantEffect_def)
qed

theorem onLoad_no_variants_witness:
  "availableVariants (element [bodyPaint]) = Some []
   \<and> variants (onLoad id (scene [bodyPaint])) = []
   \<and> variant (onLoad id (scene [bodyPaint])) = []
   \<and> mvRef (onLoad id (scene [bodyPaint])) = Some (element [bodyPaint])
   \<and> variantName (element [bodyPaint]) = None
   \<and> variantEffect (onLoad id (scene [bodyPaint])) = onLoad id (scene [bodyPaint])"
proof -
  have a: "mvRef (scene [bodyPaint]) = Some (element [bodyPaint])"
    by (simp add: scene_def initialState_def)
  have b: "availableVariants (element [bodyPaint]) = Some [] \<or> availableVariants (element [bodyPaint]) = None"
    by (simp add: element_def)
  have c: "variant (scene [bodyPaint]) = []"
    by (simp add: scene_def initialState_def)
  from onLoad_no_variants [OF a b, of id] c show ?thesis
    by (simp add: element_def)
qed









end
